theory Spec2Isabelle
  imports Main
begin

section \<open>get_page_content.js: the script and the engine it drives\<close>

text \<open>
  The repository is one CasperJS script, \<^verbatim>\<open>newspaper/casperjs/get_page_content.js\<close>:
  \<^verbatim>\<open>
  var casper = require('casper').create();
  var url = casper.cli.get(0);

  casper.start(url, function() {
      this.echo(this.getHTML());
  });
  casper.run(function() {
      var _this = this;
      _this.page.close();
      setTimeout(function(){ phantom.exit(0); }, 0);
      phantom.onError = function(){};
      throw new Error('');
  });
  \<close>
  The script is embedded statement by statement. The browser engine (CasperJS on
  PhantomJS) is not part of the repository: every primitive the script calls is a
  state transformer on a record of the engine's state, and the engine's event queue
  is a function \<open>tick\<close> that the network's behaviour parameterises.
\<close>

subsection \<open>Values\<close>

text \<open>
  The only JavaScript values the script handles: a string, or \<^verbatim>\<open>undefined\<close> (what
  \<^verbatim>\<open>casper.cli.get\<close> returns for a missing argument).
\<close>

datatype js_value = Undefined | JsString string

text \<open>\<^verbatim>\<open>new Error(msg)\<close>.\<close>

datatype js_error = Error string

text \<open>How the body of a function ends: by falling off its end, or by a \<^verbatim>\<open>throw\<close>.\<close>

datatype completion = Normal | Throw js_error

text \<open>
  The four function expressions of the source, in the order they appear: the callback
  given to \<^verbatim>\<open>casper.start\<close>, the callback given to \<^verbatim>\<open>casper.run\<close>, the closure
  given to \<^verbatim>\<open>setTimeout\<close>, and the empty function assigned to
  \<^verbatim>\<open>phantom.onError\<close>. The engine stores them and calls them later, so they are
  names here and \<open>call\<close> below runs their bodies.
\<close>

datatype closure = StartFn | RunFn | ExitFn | NoopFn

text \<open>
  Every call into the engine that the script makes, and the one signal the engine gives
  it (navigation completion, with the load status PhantomJS reports, \<open>True\<close> for
  success), in the order they happen.
\<close>

datatype event =
    EvStart js_value closure
  | EvRun closure
  | EvLoadFinished bool
  | EvGetHTML
  | EvEcho string
  | EvPageClose
  | EvSetTimeout closure nat
  | EvSetOnError closure
  | EvThrow js_error
  | EvExit int

subsection \<open>The engine's state\<close>

record engine =
  document :: string
  load_status :: "bool option"
  stdout :: string
  err :: "js_error list"
  page_open :: bool
  location :: "js_value option"
  steps :: "closure list"
  on_complete :: "closure option"
  running :: bool
  timers :: "(nat \<times> closure) list"
  on_error :: "closure option"
  exit_code :: "int option"
  trace :: "event list"

text \<open>
  \<open>document\<close> is the markup of the page as it stands; \<open>load_status\<close> what the last
  navigation reported; \<open>stdout\<close> the characters written to standard output;
  \<open>err\<close> the errors the engine surfaced through its own default reporting;
  \<open>location\<close> a navigation requested and not yet completed; \<open>steps\<close> the
  callbacks queued to run after it; \<open>on_complete\<close> the callback given to
  \<^verbatim>\<open>run\<close>; \<open>timers\<close> the pending \<^verbatim>\<open>setTimeout\<close> closures with their delays;
  \<open>on_error\<close> the value of \<^verbatim>\<open>phantom.onError\<close> (\<open>None\<close>: the engine's default);
  \<open>exit_code\<close> the status the process exited with, \<open>None\<close> while it is alive.
\<close>

subsection \<open>The primitives of the engine\<close>

text \<open>
  The engine is an external collaborator whose code the repository does not hold.
  Section 6 of the specification lists what the script relies on: a "start navigation to
  URL, invoke callback on completion" primitive, a "read current document HTML"
  primitive, a "close page resource" primitive, a process-level "exit with status"
  primitive and an error-event hook; section 4.1 adds that output is written
  "newline-terminated" and that the exit is scheduled "on the next tick of the event
  queue". Each primitive below is modelled from those words, and each one that acts on
  the engine records its call in \<open>trace\<close>.
\<close>

text \<open>
  Modelled from the spec: \<^verbatim>\<open>require('casper').create()\<close>, the engine before the script
  has asked anything of it.
\<close>

definition casper_create :: engine where
  "casper_create =
     \<lparr>document = [], load_status = None, stdout = [], err = [], page_open = False,
      location = None, steps = [], on_complete = None, running = False, timers = [],
      on_error = None, exit_code = None, trace = []\<rparr>"

text \<open>
  Modelled from the spec: \<^verbatim>\<open>casper.cli.get(i)\<close>, the positional argument at index \<open>i\<close>
  "taken verbatim from the invocation arguments", or \<^verbatim>\<open>undefined\<close> when the command
  line has none there. Reading an argument changes nothing in the engine.
\<close>

definition cli_get :: "string list \<Rightarrow> nat \<Rightarrow> js_value" where
  "cli_get args i = (if i < length args then JsString (args ! i) else Undefined)"

text \<open>
  Modelled from the spec: \<^verbatim>\<open>casper.start(url, fn)\<close>, the "start navigation to URL, invoke
  callback on completion" primitive. It opens the page, requests the navigation and
  queues the callback as the step that follows it.
\<close>

definition casper_start :: "js_value \<Rightarrow> closure \<Rightarrow> engine \<Rightarrow> engine" where
  "casper_start url fn s =
     s\<lparr>page_open := True, location := Some url, steps := steps s @ [fn],
       trace := trace s @ [EvStart url fn]\<rparr>"

text \<open>
  Modelled from the spec: \<^verbatim>\<open>casper.run(fn)\<close> starts the queue and keeps \<open>fn\<close> as the
  callback for the end of the run.
\<close>

definition casper_run :: "closure \<Rightarrow> engine \<Rightarrow> engine" where
  "casper_run fn s =
     s\<lparr>on_complete := Some fn, running := True, trace := trace s @ [EvRun fn]\<rparr>"

text \<open>
  Modelled from the spec: \<^verbatim>\<open>getHTML()\<close>, the "read current document HTML" primitive.
\<close>

definition getHTML :: "engine \<Rightarrow> string \<times> engine" where
  "getHTML s = (document s, s\<lparr>trace := trace s @ [EvGetHTML]\<rparr>)"

text \<open>
  Modelled from the spec: \<^verbatim>\<open>echo(msg)\<close> writes \<open>msg\<close> to standard output,
  "newline-terminated".
\<close>

definition echo :: "string \<Rightarrow> engine \<Rightarrow> engine" where
  "echo msg s =
     s\<lparr>stdout := stdout s @ msg @ [CHR 0x0A], trace := trace s @ [EvEcho msg]\<rparr>"

text \<open>
  Modelled from the spec: \<^verbatim>\<open>page.close()\<close>, the "close page resource" primitive.
\<close>

definition page_close :: "engine \<Rightarrow> engine" where
  "page_close s = s\<lparr>page_open := False, trace := trace s @ [EvPageClose]\<rparr>"

text \<open>
  Modelled from the spec: \<^verbatim>\<open>setTimeout(fn, delay)\<close> puts the closure at the end of the
  pending timers; it does not call it.
\<close>

definition setTimeout :: "closure \<Rightarrow> nat \<Rightarrow> engine \<Rightarrow> engine" where
  "setTimeout fn delay s =
     s\<lparr>timers := timers s @ [(delay, fn)], trace := trace s @ [EvSetTimeout fn delay]\<rparr>"

text \<open>
  Modelled from the spec: the assignment \<^verbatim>\<open>phantom.onError = fn\<close>, which installs the
  handler of the error-event hook.
\<close>

definition set_onError :: "closure \<Rightarrow> engine \<Rightarrow> engine" where
  "set_onError fn s = s\<lparr>on_error := Some fn, trace := trace s @ [EvSetOnError fn]\<rparr>"

text \<open>
  Modelled from the spec: \<^verbatim>\<open>phantom.exit(code)\<close>, the process-level "exit with status"
  primitive.
\<close>

definition phantom_exit :: "int \<Rightarrow> engine \<Rightarrow> engine" where
  "phantom_exit code s = s\<lparr>exit_code := Some code, trace := trace s @ [EvExit code]\<rparr>"

subsection \<open>The script\<close>

text \<open>
  The statement \<^verbatim>\<open>throw e\<close>: the function body ends there, and the trace records
  that the script raised the error.
\<close>

definition throw :: "js_error \<Rightarrow> engine \<Rightarrow> completion \<times> engine" where
  "throw e s = (Throw e, s\<lparr>trace := trace s @ [EvThrow e]\<rparr>)"

text \<open>
  \<^verbatim>\<open>function() { this.echo(this.getHTML()); }\<close> (lines 5 to 7). The engine passes the
  callback no status that the body reads: the function takes no parameter.
\<close>

definition start_fn :: "engine \<Rightarrow> completion \<times> engine" where
  "start_fn s = (let (html, s1) = getHTML s in (Normal, echo html s1))"

text \<open>
  The callback given to \<^verbatim>\<open>casper.run\<close> (lines 8 to 14): close the page, schedule the
  exit closure with delay 0, assign the empty function to \<^verbatim>\<open>phantom.onError\<close>, throw.
\<close>

definition run_fn :: "engine \<Rightarrow> completion \<times> engine" where
  "run_fn s =
     (let s1 = page_close s;
          s2 = setTimeout ExitFn 0 s1;
          s3 = set_onError NoopFn s2
      in throw (Error []) s3)"

text \<open>\<^verbatim>\<open>function(){ phantom.exit(0); }\<close> (line 11).\<close>

definition exit_fn :: "engine \<Rightarrow> completion \<times> engine" where
  "exit_fn s = (Normal, phantom_exit 0 s)"

text \<open>\<^verbatim>\<open>function(){}\<close> (line 12).\<close>

definition noop_fn :: "engine \<Rightarrow> completion \<times> engine" where
  "noop_fn s = (Normal, s)"

fun call :: "closure \<Rightarrow> engine \<Rightarrow> completion \<times> engine" where
  "call StartFn s = start_fn s"
| "call RunFn s = run_fn s"
| "call ExitFn s = exit_fn s"
| "call NoopFn s = noop_fn s"

text \<open>
  The top level of the script (lines 2 to 14), run once on the command line's positional
  arguments: read argument 0, register the navigation with its callback, register the
  completion callback.
\<close>

definition script :: "string list \<Rightarrow> engine" where
  "script args =
     (let casper = casper_create;
          url = cli_get args 0;
          s1 = casper_start url StartFn casper
      in casper_run RunFn s1)"

text \<open>
  The same top level over any engine: lines 2 to 14 with what the engine does on
  \<^verbatim>\<open>casper.start\<close> and on \<^verbatim>\<open>casper.run\<close> left open, either of which may throw. The
  script has no \<^verbatim>\<open>try\<close>, so a throw of \<^verbatim>\<open>start\<close> ends the top level before
  \<^verbatim>\<open>run\<close> is called, and a throw of \<^verbatim>\<open>run\<close> ends it there.
\<close>

definition script_on ::
  "(js_value \<Rightarrow> closure \<Rightarrow> 'e \<Rightarrow> completion \<times> 'e) \<Rightarrow> (closure \<Rightarrow> 'e \<Rightarrow> completion \<times> 'e) \<Rightarrow>
   'e \<Rightarrow> string list \<Rightarrow> completion \<times> 'e" where
  "script_on start' run' create args =
     (let casper = create;
          url = cli_get args 0
      in case start' url StartFn casper of
           (Normal, s1) \<Rightarrow> run' RunFn s1
         | (Throw e, s1) \<Rightarrow> (Throw e, s1))"

subsection \<open>The engine's event queue\<close>

text \<open>
  Modelled from the spec: what the network does with the navigation. \<open>Loads h\<close>: the
  page loads and its markup is \<open>h\<close>. \<open>Fails h\<close>: the navigation fails (bad URL, network
  error, HTTP error status) and the engine still signals completion, with "whatever HTML
  state exists (possibly an error page or empty document)", here \<open>h\<close>. \<open>Stalls\<close>: the
  engine never invokes the completion callback.
\<close>

datatype network = Loads string | Fails string | Stalls

text \<open>
  Modelled from the spec: whether the engine signals completion, and then the load
  status it reports and the markup the page holds.
\<close>

fun outcome :: "network \<Rightarrow> (bool \<times> string) option" where
  "outcome (Loads h) = Some (True, h)"
| "outcome (Fails h) = Some (False, h)"
| "outcome Stalls = None"

text \<open>
  Modelled from the spec: an error that reaches the engine goes to the error-event hook.
  With a handler installed the engine calls it and does nothing else; without one it
  reports the error itself.
\<close>

definition report :: "js_error \<Rightarrow> engine \<Rightarrow> engine" where
  "report e s =
     (case on_error s of
        None \<Rightarrow> s\<lparr>err := err s @ [e]\<rparr>
      | Some h \<Rightarrow> snd (call h s))"

text \<open>
  Modelled from the spec: what the engine does when a callback it invoked returns or
  throws. An error that leaves the callback is one more error for the hook.
\<close>

definition deliver :: "completion \<times> engine \<Rightarrow> engine" where
  "deliver r = (case fst r of Normal \<Rightarrow> snd r | Throw e \<Rightarrow> report e (snd r))"

text \<open>
  Modelled from the spec: the engine's signal that the navigation has completed, with
  load status \<open>ok\<close> and the page's markup \<open>h\<close>.
\<close>

definition load_finished :: "bool \<Rightarrow> string \<Rightarrow> engine \<Rightarrow> engine" where
  "load_finished ok h s =
     s\<lparr>document := h, load_status := Some ok, location := None,
       trace := trace s @ [EvLoadFinished ok]\<rparr>"

text \<open>
  Modelled from the spec: one turn of the event queue, \<open>None\<close> when nothing is enabled.
  A process that has exited does nothing more. A pending timer fires (the script only
  ever uses delay 0, "the next tick"). Otherwise, once \<^verbatim>\<open>run\<close> was called: a requested
  navigation completes if the network lets it, and the queue waits for it if not; with
  no navigation pending the next queued step is called; with no step left the
  completion callback is called, once.
\<close>

definition tick :: "network \<Rightarrow> engine \<Rightarrow> engine option" where
  "tick net s =
     (if exit_code s \<noteq> None then None
      else (case timers s of
        (d, f) # ts \<Rightarrow> Some (deliver (call f (s\<lparr>timers := ts\<rparr>)))
      | [] \<Rightarrow>
          (if \<not> running s then None
           else (case location s of
             Some url \<Rightarrow>
               (case outcome net of
                  Some (ok, h) \<Rightarrow> Some (load_finished ok h s)
                | None \<Rightarrow> None)
           | None \<Rightarrow>
               (case steps s of
                  f # fs \<Rightarrow> Some (deliver (call f (s\<lparr>steps := fs\<rparr>)))
                | [] \<Rightarrow>
                    (case on_complete s of
                       Some f \<Rightarrow> Some (deliver (call f (s\<lparr>running := False\<rparr>)))
                     | None \<Rightarrow> Some (s\<lparr>running := False\<rparr>)))))))"

text \<open>
  Modelled from the spec: a turn of the queue on a process that is waiting. With nothing
  enabled the state stays as it is.
\<close>

definition advance :: "network \<Rightarrow> engine \<Rightarrow> engine" where
  "advance net s = (case tick net s of None \<Rightarrow> s | Some s' \<Rightarrow> s')"

text \<open>The state after \<open>n\<close> turns of the queue.\<close>

primrec run :: "nat \<Rightarrow> network \<Rightarrow> engine \<Rightarrow> engine" where
  "run 0 net s = s"
| "run (Suc n) net s = run n net (advance net s)"

text \<open>A whole execution: the script's top level, then \<open>n\<close> turns of the queue.\<close>

definition exec :: "nat \<Rightarrow> network \<Rightarrow> string list \<Rightarrow> engine" where
  "exec n net args = run n net (script args)"

text \<open>
  Modelled from the spec: the process waiting for its own exit. The turns of the queue
  follow one another until an exit status is there; a process that never exits is a
  wait with no result.
\<close>

partial_function (option) await_exit :: "network \<Rightarrow> engine \<Rightarrow> int option" where
  "await_exit net s =
     (case exit_code s of
        Some c \<Rightarrow> Some c
      | None \<Rightarrow> await_exit net (advance net s))"

subsection \<open>Vocabulary of the properties\<close>

fun is_start :: "event \<Rightarrow> bool" where
  "is_start (EvStart url fn) = True"
| "is_start _ = False"

fun is_echo :: "event \<Rightarrow> bool" where
  "is_echo (EvEcho msg) = True"
| "is_echo _ = False"

fun is_load_finished :: "event \<Rightarrow> bool" where
  "is_load_finished (EvLoadFinished ok) = True"
| "is_load_finished _ = False"

text \<open>
  The steps of the shutdown sequence: closing the page, scheduling a closure, replacing
  the error handler, the throw, and the exit itself.
\<close>

fun shutdown_step :: "event \<Rightarrow> bool" where
  "shutdown_step EvPageClose = True"
| "shutdown_step (EvSetTimeout fn delay) = True"
| "shutdown_step (EvSetOnError fn) = True"
| "shutdown_step (EvThrow e) = True"
| "shutdown_step (EvExit code) = True"
| "shutdown_step _ = False"

text \<open>
  The trace of an execution that runs to its exit, for the value \<open>url\<close> given to
  \<^verbatim>\<open>casper.start\<close>, the load status \<open>ok\<close> and the markup \<open>h\<close>. Every trace of the
  program is shown below to be a prefix of it.
\<close>

definition full_trace :: "js_value \<Rightarrow> bool \<Rightarrow> string \<Rightarrow> event list" where
  "full_trace url ok h =
     [EvStart url StartFn, EvRun RunFn, EvLoadFinished ok, EvGetHTML, EvEcho h,
      EvPageClose, EvSetTimeout ExitFn 0, EvSetOnError NoopFn, EvThrow (Error []),
      EvExit 0]"




subsection \<open>An engine that refuses a missing URL\<close>

text \<open>
  The specification leaves the missing argument open ("behavior is
  undefined/unspecified by the source", section 8), and the repository holds no code of
  the engine. The engine below does on a string what \<open>casper_start\<close> and
  \<open>casper_run\<close> do. Given a value that is not a string, its \<^verbatim>\<open>start\<close> opens the page
  but requests no navigation and queues no step; its \<^verbatim>\<open>run\<close> throws when no step is
  queued. This is how CasperJS treats a location that is not a string.
\<close>

definition strict_start :: "js_value \<Rightarrow> closure \<Rightarrow> engine \<Rightarrow> completion \<times> engine" where
  "strict_start url fn s =
     (case url of
        JsString u \<Rightarrow> (Normal, casper_start url fn s)
      | Undefined \<Rightarrow> (Normal, s\<lparr>page_open := True, trace := trace s @ [EvStart url fn]\<rparr>))"

definition strict_run :: "closure \<Rightarrow> engine \<Rightarrow> completion \<times> engine" where
  "strict_run fn s =
     (if steps s = []
      then (Throw (Error ''No steps defined, aborting''), s\<lparr>trace := trace s @ [EvRun fn]\<rparr>)
      else (Normal, casper_run fn s))"

section \<open>The execution, turn by turn\<close>

lemmas prims = casper_start_def casper_run_def getHTML_def echo_def
  page_close_def setTimeout_def set_onError_def phantom_exit_def throw_def

lemma script_eq:
  "script args =
     \<lparr>document = [], load_status = None, stdout = [], err = [], page_open = True,
      location = Some (cli_get args 0), steps = [StartFn], on_complete = Some RunFn,
      running = True, timers = [], on_error = None, exit_code = None,
      trace = [EvStart (cli_get args 0) StartFn, EvRun RunFn]\<rparr>"
  by (simp add: script_def Let_def casper_create_def prims)

lemma start_fn_eq:
  "start_fn s =
     (Normal, s\<lparr>stdout := stdout s @ document s @ [CHR 0x0A],
               trace := trace s @ [EvGetHTML, EvEcho (document s)]\<rparr>)"
  by (simp add: start_fn_def prims)

lemma run_fn_eq:
  "run_fn s =
     (Throw (Error []),
      s\<lparr>page_open := False,
        timers := timers s @ [(0, ExitFn)],
        on_error := Some NoopFn,
        trace := trace s @ [EvPageClose, EvSetTimeout ExitFn 0, EvSetOnError NoopFn,
                            EvThrow (Error [])]\<rparr>)"
  by (simp add: run_fn_def prims)

lemma run_advance: "run n net (advance net s) = advance net (run n net s)"
  by (induction n arbitrary: s) simp_all

lemma exec_Suc: "exec (Suc n) net args = advance net (exec n net args)"
  by (simp add: exec_def run_advance)

lemma exec_0: "exec 0 net args = script args"
  by (simp add: exec_def)

lemma tick_script_stalls: "outcome net = None \<Longrightarrow> tick net (script args) = None"
  by (simp add: tick_def script_eq)

lemma exec_stalls: "outcome net = None \<Longrightarrow> exec n net args = script args"
proof (induction n)
  case 0
  show ?case by (simp add: exec_0)
next
  case (Suc n)
  then show ?case by (simp add: exec_Suc advance_def tick_script_stalls)
qed

lemma exec_1:
  "outcome net = Some (ok, h) \<Longrightarrow>
   exec (Suc 0) net args =
     \<lparr>document = h, load_status = Some ok, stdout = [], err = [], page_open = True,
      location = None, steps = [StartFn], on_complete = Some RunFn, running = True,
      timers = [], on_error = None, exit_code = None,
      trace = [EvStart (cli_get args 0) StartFn, EvRun RunFn, EvLoadFinished ok]\<rparr>"
  by (simp add: exec_Suc exec_0 advance_def tick_def script_eq load_finished_def)

lemma exec_2:
  "outcome net = Some (ok, h) \<Longrightarrow>
   exec (Suc (Suc 0)) net args =
     \<lparr>document = h, load_status = Some ok, stdout = h @ [CHR 0x0A], err = [],
      page_open = True, location = None, steps = [], on_complete = Some RunFn,
      running = True, timers = [], on_error = None, exit_code = None,
      trace = [EvStart (cli_get args 0) StartFn, EvRun RunFn, EvLoadFinished ok,
               EvGetHTML, EvEcho h]\<rparr>"
  by (simp add: exec_Suc [of "Suc 0"] exec_1 advance_def tick_def deliver_def start_fn_eq)

lemma exec_3:
  "outcome net = Some (ok, h) \<Longrightarrow>
   exec (Suc (Suc (Suc 0))) net args =
     \<lparr>document = h, load_status = Some ok, stdout = h @ [CHR 0x0A], err = [],
      page_open = False, location = None, steps = [], on_complete = Some RunFn,
      running = False, timers = [(0, ExitFn)], on_error = Some NoopFn, exit_code = None,
      trace = [EvStart (cli_get args 0) StartFn, EvRun RunFn, EvLoadFinished ok,
               EvGetHTML, EvEcho h, EvPageClose, EvSetTimeout ExitFn 0,
               EvSetOnError NoopFn, EvThrow (Error [])]\<rparr>"
  by (simp add: exec_Suc [of "Suc (Suc 0)"] exec_2 advance_def tick_def deliver_def
      run_fn_eq report_def noop_fn_def)

lemma exec_4:
  "outcome net = Some (ok, h) \<Longrightarrow>
   exec (Suc (Suc (Suc (Suc 0)))) net args =
     \<lparr>document = h, load_status = Some ok, stdout = h @ [CHR 0x0A], err = [],
      page_open = False, location = None, steps = [], on_complete = Some RunFn,
      running = False, timers = [], on_error = Some NoopFn, exit_code = Some 0,
      trace = [EvStart (cli_get args 0) StartFn, EvRun RunFn, EvLoadFinished ok,
               EvGetHTML, EvEcho h, EvPageClose, EvSetTimeout ExitFn 0,
               EvSetOnError NoopFn, EvThrow (Error []), EvExit 0]\<rparr>"
  by (simp add: exec_Suc [of "Suc (Suc (Suc 0))"] exec_3 advance_def tick_def deliver_def
      exit_fn_def phantom_exit_def)

lemma tick_exited: "exit_code s \<noteq> None \<Longrightarrow> tick net s = None"
  by (simp add: tick_def)

lemma exec_ge4:
  assumes "outcome net = Some (ok, h)"
  shows "exec (4 + n) net args = exec 4 net args"
proof (induction n)
  case 0
  show ?case by simp
next
  case (Suc n)
  have "exit_code (exec 4 net args) \<noteq> None"
    using exec_4 [OF assms, of args] by (simp add: eval_nat_numeral)
  then have "advance net (exec 4 net args) = exec 4 net args"
    by (simp add: advance_def tick_exited)
  moreover have "exec (4 + Suc n) net args = advance net (exec (4 + n) net args)"
    using exec_Suc [of "4 + n" net args] by simp
  ultimately show ?case using Suc by simp
qed

lemma turns: "(n::nat) = 0 \<or> n = 1 \<or> n = 2 \<or> n = 3 \<or> (\<exists>m. n = 4 + m)"
  by presburger

lemma exec_cases:
  assumes "outcome net = Some (ok, h)"
  obtains "exec n net args = exec 0 net args"
  | "exec n net args = exec (Suc 0) net args"
  | "exec n net args = exec (Suc (Suc 0)) net args"
  | "exec n net args = exec (Suc (Suc (Suc 0))) net args"
  | "exec n net args = exec (Suc (Suc (Suc (Suc 0)))) net args"
  using turns [of n] exec_ge4 [OF assms, of _ args]
  by (auto simp: eval_nat_numeral)

lemma exec_numerals:
  "exec 1 net args = exec (Suc 0) net args"
  "exec 2 net args = exec (Suc (Suc 0)) net args"
  "exec 3 net args = exec (Suc (Suc (Suc 0))) net args"
  "exec 4 net args = exec (Suc (Suc (Suc (Suc 0)))) net args"
  by (simp_all add: eval_nat_numeral)

lemma on_complete_exec: "on_complete (exec n net args) = Some RunFn"
proof (cases "outcome net")
  case None
  then show ?thesis by (simp add: exec_stalls script_eq)
next
  case (Some p)
  then obtain ok h where o: "outcome net = Some (ok, h)" by (cases p) simp
  show ?thesis
    by (rule exec_cases [OF o, of n args])
       (simp_all add: exec_0 script_eq exec_1 [OF o] exec_2 [OF o] exec_3 [OF o] exec_4 [OF o])
qed

lemma outcome_SomeE:
  assumes "outcome net \<noteq> None"
  obtains ok h where "outcome net = Some (ok, h)"
  using assms by (cases "outcome net") auto

lemma trace_exec:
  assumes "outcome net = Some (ok, h)"
  shows "trace (exec n net args) =
           take (if n = 0 then 2 else if n = 1 then 3 else if n = 2 then 5
                 else if n = 3 then 9 else 10)
             (full_trace (cli_get args 0) ok h)"
  using turns [of n] exec_ge4 [OF assms, of _ args]
  by (auto simp: full_trace_def exec_numerals exec_0 script_eq
      exec_1 [OF assms] exec_2 [OF assms] exec_3 [OF assms] exec_4 [OF assms])

lemma trace_exec_stalls:
  assumes "outcome net = None"
  shows "trace (exec n net args) = take 2 (full_trace (cli_get args 0) ok h)"
  by (simp add: exec_stalls [OF assms] script_eq full_trace_def)

lemma trace_prefix:
  "\<exists>k ok h. trace (exec n net args) = take k (full_trace (cli_get args 0) ok h)"
proof (cases "outcome net")
  case None
  from trace_exec_stalls [OF this] show ?thesis by blast
next
  case (Some p)
  then obtain ok h where "outcome net = Some (ok, h)" by (cases p) simp
  from trace_exec [OF this] show ?thesis by blast
qed

lemma stdout_exec:
  assumes "outcome net = Some (ok, h)"
  shows "stdout (exec n net args) = (if n < 2 then [] else h @ [CHR 0x0A])"
  using turns [of n] exec_ge4 [OF assms, of _ args]
  by (auto simp: exec_numerals exec_0 script_eq
      exec_1 [OF assms] exec_2 [OF assms] exec_3 [OF assms] exec_4 [OF assms])

lemma exit_code_exec:
  assumes "outcome net = Some (ok, h)"
  shows "exit_code (exec n net args) = (if n < 4 then None else Some 0)"
  using turns [of n] exec_ge4 [OF assms, of _ args]
  by (auto simp: exec_numerals exec_0 script_eq
      exec_1 [OF assms] exec_2 [OF assms] exec_3 [OF assms] exec_4 [OF assms])

lemma err_exec: "err (exec n net args) = []"
proof (cases "outcome net")
  case None
  then show ?thesis by (simp add: exec_stalls script_eq)
next
  case (Some p)
  then obtain ok h where o: "outcome net = Some (ok, h)" by (cases p) simp
  show ?thesis
    by (rule exec_cases [OF o, of n args])
       (simp_all add: exec_0 script_eq exec_1 [OF o] exec_2 [OF o] exec_3 [OF o] exec_4 [OF o])
qed


lemma starts_exec: "[e \<leftarrow> trace (exec n net args). is_start e] = [EvStart (cli_get args 0) StartFn]"
proof (cases "outcome net")
  case None
  then show ?thesis by (simp add: exec_stalls script_eq)
next
  case (Some p)
  then obtain ok h where o: "outcome net = Some (ok, h)" by (cases p) simp
  show ?thesis by (simp add: trace_exec [OF o] full_trace_def)
qed

lemma below_ten:
  assumes "(j::nat) < 10"
  shows "j = 0 \<or> j = 1 \<or> j = 2 \<or> j = 3 \<or> j = 4 \<or> j = 5 \<or> j = 6 \<or> j = 7 \<or> j = 8 \<or> j = 9"
  using assms by presburger

lemma full_trace_echo:
  assumes "j < 10" and "full_trace url ok h ! j = EvEcho m"
  shows "j = 4"
  using below_ten [OF assms(1)] assms(2) by (auto simp: full_trace_def)

lemma full_trace_shutdown:
  assumes "j < 10"
  shows "shutdown_step (full_trace url ok h ! j) = (5 \<le> j)"
  using below_ten [OF assms] by (auto simp: full_trace_def)

lemma full_trace_at:
  "full_trace url ok h ! 2 = EvLoadFinished ok" "full_trace url ok h ! 4 = EvEcho h"
  by (simp_all add: full_trace_def)

lemma length_full_trace: "length (full_trace url ok h) = 10"
  by (simp add: full_trace_def)

lemma exec_fails_loads:
  "exec n (Fails h) args =
     (exec n (Loads h) args)
       \<lparr>load_status := load_status (exec n (Fails h) args),
        trace := trace (exec n (Fails h) args)\<rparr>"
proof -
  have f: "outcome (Fails h) = Some (False, h)" and l: "outcome (Loads h) = Some (True, h)"
    by simp_all
  show ?thesis
    using turns [of n] exec_ge4 [OF f, of _ args] exec_ge4 [OF l, of _ args]
    by (auto simp: exec_numerals exec_numerals exec_0
        exec_1 [OF f] exec_2 [OF f] exec_3 [OF f] exec_4 [OF f]
        exec_1 [OF l] exec_2 [OF l] exec_3 [OF l] exec_4 [OF l])
qed

lemma calls_fails_loads:
  "[e \<leftarrow> trace (exec n (Fails h) args). \<not> is_load_finished e] =
   [e \<leftarrow> trace (exec n (Loads h) args). \<not> is_load_finished e]"
proof -
  have f: "outcome (Fails h) = Some (False, h)" and l: "outcome (Loads h) = Some (True, h)"
    by simp_all
  show ?thesis
    by (simp add: trace_exec [OF f] trace_exec [OF l] full_trace_def)
qed


lemma report_after_run_fn: "report e (snd (run_fn s)) = snd (run_fn s)"
  by (simp add: run_fn_eq report_def noop_fn_def)

lemma reports_after_run_fn: "foldr report es (snd (run_fn s)) = snd (run_fn s)"
  by (induction es) (simp_all add: report_after_run_fn)

lemma deliver_run_fn: "deliver (run_fn s) = snd (run_fn s)"
  using report_after_run_fn [of "Error []" s] by (simp add: deliver_def run_fn_eq)

lemma await_exit_waiting:
  assumes "exit_code s = None" and "advance net s = s"
  shows "await_exit net s = None"
proof (rule ccontr)
  assume "await_exit net s \<noteq> None"
  then obtain c where "await_exit net s = Some c" by auto
  then have "\<not> (exit_code s = None \<and> advance net s = s)"
  proof (induction net s c rule: await_exit.raw_induct [rotated 1, consumes 1])
    case (1 wait net s c)
    show ?case
    proof
      assume stuck: "exit_code s = None \<and> advance net s = s"
      with "1.hyps" have "wait net s = Some c" by simp
      from "1.IH" [OF this] stuck show False by simp
    qed
  qed
  with assms show False by simp
qed

lemma await_exit_exited: "exit_code s = Some c \<Longrightarrow> await_exit net s = Some c"
  by (subst await_exit.simps) simp

lemma await_exit_turn:
  "exit_code (exec n net args) = None \<Longrightarrow>
   await_exit net (exec n net args) = await_exit net (exec (Suc n) net args)"
  by (subst await_exit.simps) (simp add: exec_Suc)

lemma await_exit_exec:
  assumes "outcome net = Some (ok, h)"
  shows "await_exit net (exec n net args) = Some 0"
proof -
  have late: "await_exit net (exec m net args) = Some 0" if "4 \<le> m" for m
    using that by (intro await_exit_exited) (simp add: exit_code_exec [OF assms])
  have early: "await_exit net (exec (4 - d) net args) = Some 0" for d
  proof (induction d)
    case 0
    show ?case using late [of 4] by simp
  next
    case (Suc d)
    show ?case
    proof (cases "d < 4")
      case True
      then have "Suc (4 - Suc d) = 4 - d" by simp
      moreover have "exit_code (exec (4 - Suc d) net args) = None"
        using True by (simp add: exit_code_exec [OF assms])
      ultimately show ?thesis
        using await_exit_turn [of "4 - Suc d" net args] Suc.IH by simp
    next
      case False
      then have "4 - Suc d = 4 - d" by simp
      with Suc.IH show ?thesis by simp
    qed
  qed
  show ?thesis
  proof (cases "4 \<le> n")
    case True
    then show ?thesis by (rule late)
  next
    case False
    then have "n = 4 - (4 - n)" by simp
    then show ?thesis using early [of "4 - n"] by simp
  qed
qed

lemma echo_written:
  assumes "EvEcho m \<in> set (trace (exec n net args))"
  obtains ok where "outcome net = Some (ok, m)" and "2 \<le> n"
proof (cases "outcome net")
  case None
  with assms show ?thesis by (simp add: exec_stalls script_eq)
next
  case (Some p)
  then obtain ok h where o: "outcome net = Some (ok, h)" by (cases p) simp
  from assms have "2 \<le> n \<and> m = h"
    by (cases "n = 0"; cases "n = 1") (auto simp: trace_exec [OF o] full_trace_def split: if_splits)
  with o that show ?thesis by simp
qed







lemma script_on_model:
  "script_on (\<lambda>url fn s. (Normal, casper_start url fn s)) (\<lambda>fn s. (Normal, casper_run fn s))
     casper_create args = (Normal, script args)"
  by (simp add: script_on_def script_def Let_def)

section \<open>The claims\<close>

subsection \<open>C1: the shutdown sequence\<close>

text \<open>
  C1. On every run-completion path the shutdown sequence performs exactly these steps,
  in this order: it releases the page, schedules the engine's exit with status 0 for the
  next turn of the event queue (deferred, not immediate), installs a no-op handler for
  the engine's error events, and then unconditionally throws an error whose message is
  the empty string.

  The first conjunct is the whole effect of the completion callback on any state of
  the engine: the four steps are appended to the trace in that order, the closure is
  queued with delay 0 and is not run (the exit status is the one before the call), and
  the body ends in the throw. The closure that was queued exits with status 0, the
  handler that was installed does nothing, and in every state of every execution the
  completion callback the engine holds is this one. In an execution whose navigation
  completes, the third turn of the queue is the call of that callback; the process has
  not exited when it ends, and the turn after it runs the queued closure, which exits
  with status 0.
\<close>

theorem shutdown_sequence:
  "run_fn s =
     (Throw (Error []),
      s\<lparr>page_open := False,
        timers := timers s @ [(0, ExitFn)],
        on_error := Some NoopFn,
        trace := trace s @ [EvPageClose, EvSetTimeout ExitFn 0, EvSetOnError NoopFn,
                            EvThrow (Error [])]\<rparr>)
   \<and> exit_code (snd (run_fn s)) = exit_code s
   \<and> call ExitFn t = (Normal, t\<lparr>exit_code := Some 0, trace := trace t @ [EvExit 0]\<rparr>)
   \<and> call NoopFn t = (Normal, t)
   \<and> on_complete (exec n net args) = Some RunFn
   \<and> (outcome net \<noteq> None \<longrightarrow>
        exec 3 net args = deliver (call RunFn ((exec 2 net args)\<lparr>running := False\<rparr>))
        \<and> exit_code (exec 3 net args) = None
        \<and> exit_code (exec 4 net args) = Some 0
        \<and> trace (exec 4 net args) = trace (exec 3 net args) @ [EvExit 0])"
proof -
  have "exec 3 net args = deliver (call RunFn ((exec 2 net args)\<lparr>running := False\<rparr>))
        \<and> exit_code (exec 3 net args) = None
        \<and> exit_code (exec 4 net args) = Some 0
        \<and> trace (exec 4 net args) = trace (exec 3 net args) @ [EvExit 0]"
    if "outcome net \<noteq> None"
  proof -
    from that obtain ok h where o: "outcome net = Some (ok, h)"
      by (rule outcome_SomeE)
    show ?thesis
      by (simp add: exec_numerals exec_2 [OF o] exec_3 [OF o] exec_4 [OF o] deliver_def
          run_fn_eq report_def noop_fn_def)
  qed
  moreover have "exit_code (snd (run_fn s)) = exit_code s"
    by (simp add: run_fn_eq)
  moreover have "call ExitFn t = (Normal, t\<lparr>exit_code := Some 0, trace := trace t @ [EvExit 0]\<rparr>)"
    by (simp add: exit_fn_def phantom_exit_def)
  moreover have "call NoopFn t = (Normal, t)"
    by (simp add: noop_fn_def)
  ultimately show ?thesis
    using run_fn_eq [of s] on_complete_exec [of n net args] by blast
qed

theorem shutdown_sequence_witness:
  "fst (run_fn (script [''http://example.com/''])) = Throw (Error [])
   \<and> trace (snd (run_fn (script [''http://example.com/'']))) =
       [EvStart (JsString ''http://example.com/'') StartFn, EvRun RunFn,
        EvPageClose, EvSetTimeout ExitFn 0, EvSetOnError NoopFn, EvThrow (Error [])]
   \<and> timers (snd (run_fn (script [''http://example.com/'']))) = [(0, ExitFn)]
   \<and> exit_code (snd (run_fn (script [''http://example.com/'']))) = None
   \<and> exit_code (exec 3 (Loads ''<p>'') [''http://example.com/'']) = None
   \<and> exit_code (exec 4 (Loads ''<p>'') [''http://example.com/'']) = Some 0"
proof -
  have o: "outcome (Loads ''<p>'') \<noteq> None" by simp
  note ss = shutdown_sequence [where s = "script [''http://example.com/'']"
      and net = "Loads ''<p>''" and args = "[''http://example.com/'']"]
  from ss have "run_fn (script [''http://example.com/'']) =
     (Throw (Error []),
      (script [''http://example.com/''])\<lparr>page_open := False,
        timers := timers (script [''http://example.com/'']) @ [(0, ExitFn)],
        on_error := Some NoopFn,
        trace := trace (script [''http://example.com/'']) @
          [EvPageClose, EvSetTimeout ExitFn 0, EvSetOnError NoopFn, EvThrow (Error [])]\<rparr>)"
    by blast
  moreover from ss o have "exit_code (exec 3 (Loads ''<p>'') [''http://example.com/'']) = None
      \<and> exit_code (exec 4 (Loads ''<p>'') [''http://example.com/'']) = Some 0"
    by blast
  ultimately show ?thesis
    by (simp add: script_eq cli_get_def)
qed

subsection \<open>C2: the markup is written as the engine gave it\<close>

text \<open>
  C2. When the navigation-completion callback fires, the program writes the current
  document's serialized HTML to standard output as a single blob, newline-terminated,
  with no structuring, escaping or other transformation of the string obtained from the
  engine.

  On any state of the engine the callback appends to standard output the document as
  \<^verbatim>\<open>getHTML\<close> returned it, followed by one newline, and the string it hands to
  \<^verbatim>\<open>echo\<close> is that document. In an execution whose navigation completes with markup
  \<open>h\<close>, nothing is written before the turn that calls the callback, that turn is the
  second one, and from then on standard output is \<open>h\<close> and a newline, written by a
  single \<^verbatim>\<open>echo\<close>.
\<close>

theorem html_written_verbatim:
  "start_fn s =
     (Normal, s\<lparr>stdout := stdout s @ document s @ [CHR 0x0A],
               trace := trace s @ [EvGetHTML, EvEcho (document s)]\<rparr>)
   \<and> (outcome net = Some (ok, h) \<longrightarrow>
        stdout (exec 1 net args) = []
        \<and> document (exec 1 net args) = h
        \<and> exec 2 net args = deliver (call StartFn ((exec 1 net args)\<lparr>steps := []\<rparr>))
        \<and> stdout (exec (2 + n) net args) = h @ [CHR 0x0A]
        \<and> [e \<leftarrow> trace (exec (2 + n) net args). is_echo e] = [EvEcho h])"
proof (intro conjI impI)
  show "start_fn s =
     (Normal, s\<lparr>stdout := stdout s @ document s @ [CHR 0x0A],
               trace := trace s @ [EvGetHTML, EvEcho (document s)]\<rparr>)"
    by (rule start_fn_eq)
next
  assume o: "outcome net = Some (ok, h)"
  show "stdout (exec 1 net args) = []"
    by (simp add: stdout_exec [OF o])
  show "document (exec 1 net args) = h"
    by (simp add: exec_1 [OF o])
  show "exec 2 net args = deliver (call StartFn ((exec 1 net args)\<lparr>steps := []\<rparr>))"
    by (simp add: exec_numerals exec_1 [OF o] exec_2 [OF o] deliver_def start_fn_eq)
  show "stdout (exec (2 + n) net args) = h @ [CHR 0x0A]"
    by (simp add: stdout_exec [OF o])
  show "[e \<leftarrow> trace (exec (2 + n) net args). is_echo e] = [EvEcho h]"
    by (simp add: trace_exec [OF o] full_trace_def)
qed

theorem html_written_verbatim_witness:
  "stdout (exec 2 (Loads ''<html><body>Hi</body></html>'') [''http://example.com/'']) =
     ''<html><body>Hi</body></html>'' @ [CHR 0x0A]
   \<and> [e \<leftarrow> trace (exec 2 (Loads ''<html><body>Hi</body></html>'') [''http://example.com/'']).
        is_echo e] = [EvEcho ''<html><body>Hi</body></html>'']"
proof -
  have o: "outcome (Loads ''<html><body>Hi</body></html>'') =
             Some (True, ''<html><body>Hi</body></html>'')"
    by simp
  from html_written_verbatim [of casper_create "Loads ''<html><body>Hi</body></html>''"
      True "''<html><body>Hi</body></html>''" "[''http://example.com/'']" 0] o
  have "stdout (exec (2 + 0) (Loads ''<html><body>Hi</body></html>'')
                 [''http://example.com/'']) =
          ''<html><body>Hi</body></html>'' @ [CHR 0x0A]
        \<and> [e \<leftarrow> trace (exec (2 + 0) (Loads ''<html><body>Hi</body></html>'')
                              [''http://example.com/'']).
             is_echo e] = [EvEcho ''<html><body>Hi</body></html>'']"
    by blast
  then show ?thesis by simp
qed

subsection \<open>C3: the URL is the first argument, as given\<close>

text \<open>
  C3. For every invocation, the URL passed to the engine's navigation primitive is
  exactly the first positional command-line argument, taken verbatim: no validation, no
  scheme check, no parsing into components.

  For any first argument \<open>a\<close>, whatever string it is, and any further arguments, the
  navigation is requested for the string \<open>a\<close> itself, and in every state of every
  execution the only call of \<^verbatim>\<open>casper.start\<close> in the trace is that one.
\<close>

theorem url_verbatim:
  "cli_get (a # rest) 0 = JsString a
   \<and> location (script (a # rest)) = Some (JsString a)
   \<and> trace (script (a # rest)) = [EvStart (JsString a) StartFn, EvRun RunFn]
   \<and> [e \<leftarrow> trace (exec n net (a # rest)). is_start e] = [EvStart (JsString a) StartFn]"
  by (simp add: starts_exec script_eq cli_get_def)

theorem url_verbatim_witness:
  "location (script [''not a url'', ''more'']) = Some (JsString ''not a url'')
   \<and> location (script ['''']) = Some (JsString '''')
   \<and> [e \<leftarrow> trace (exec 4 (Fails []) [''ftp://h:x/%'']). is_start e] =
       [EvStart (JsString ''ftp://h:x/%'') StartFn]"
  using url_verbatim [of "''not a url''" "[''more'']" 0 Stalls]
    url_verbatim [of "''''" "[]" 0 Stalls]
    url_verbatim [of "''ftp://h:x/%''" "[]" 4 "Fails []"]
  by simp

subsection \<open>C4: output after completion, before shutdown\<close>

text \<open>
  C4. In every execution, the write of the HTML to standard output happens strictly
  after the engine signals navigation completion and strictly before any process-exit
  request (page close, scheduled exit, or the forcing throw) is issued.

  Let \<open>t\<close> be the trace of any execution after any number of turns, and \<open>j\<close> a
  position in it. If the event at \<open>j\<close> is the \<^verbatim>\<open>echo\<close>, then the completion signal
  stands at an earlier position and no step of the shutdown sequence stands at or before
  \<open>j\<close>. If the event at \<open>j\<close> is a step of the shutdown sequence, then the
  \<^verbatim>\<open>echo\<close> stands at an earlier position. That the engine calls the callback of
  \<^verbatim>\<open>start\<close> on completion and the callback of \<^verbatim>\<open>run\<close> after it is the engine's
  contract, as \<open>tick\<close> models it.
\<close>

theorem output_ordering:
  assumes "t = trace (exec n net args)" and "j < length t"
  shows "(t ! j = EvEcho m \<longrightarrow>
            (\<exists>i<j. is_load_finished (t ! i)) \<and> (\<forall>i\<le>j. \<not> shutdown_step (t ! i)))
         \<and> (shutdown_step (t ! j) \<longrightarrow> (\<exists>i<j. is_echo (t ! i)))"
proof -
  obtain k ok h where t: "t = take k (full_trace (cli_get args 0) ok h)"
    using trace_prefix [of n net args] assms(1) by blast
  let ?f = "full_trace (cli_get args 0) ok h"
  from assms(2) have jk: "j < k" and j10: "j < 10"
    by (simp_all add: t length_full_trace)
  have nth: "t ! i = ?f ! i" if "i \<le> j" for i
    using that jk by (simp add: t)
  show ?thesis
  proof (intro conjI impI)
    assume "t ! j = EvEcho m"
    then have j4: "j = 4"
      using full_trace_echo [OF j10, of "cli_get args 0" ok h m] nth [of j] by simp
    have "is_load_finished (t ! 2)"
      using nth [of 2] j4 by (simp add: full_trace_at)
    then show "\<exists>i<j. is_load_finished (t ! i)"
      using j4 by (intro exI [of _ 2]) simp
    show "\<forall>i\<le>j. \<not> shutdown_step (t ! i)"
    proof (intro allI impI)
      fix i assume "i \<le> j"
      then show "\<not> shutdown_step (t ! i)"
        using nth [of i] j4 full_trace_shutdown [of i "cli_get args 0" ok h] by simp
    qed
  next
    assume "shutdown_step (t ! j)"
    then have j5: "5 \<le> j"
      using nth [of j] full_trace_shutdown [OF j10, of "cli_get args 0" ok h] by simp
    then have "is_echo (t ! 4)"
      using nth [of 4] by (simp add: full_trace_at)
    then show "\<exists>i<j. is_echo (t ! i)"
      using j5 by (intro exI [of _ 4]) simp
  qed
qed

theorem output_ordering_witness:
  "trace (exec 4 (Loads ''<p>'') [''http://example.com/'']) ! 4 = EvEcho ''<p>''
   \<and> (\<exists>i<4. is_load_finished (trace (exec 4 (Loads ''<p>'') [''http://example.com/'']) ! i))
   \<and> \<not> shutdown_step (trace (exec 4 (Loads ''<p>'') [''http://example.com/'']) ! 3)
   \<and> shutdown_step (trace (exec 4 (Loads ''<p>'') [''http://example.com/'']) ! 5)
   \<and> (\<exists>i<5. is_echo (trace (exec 4 (Loads ''<p>'') [''http://example.com/'']) ! i))"
proof -
  let ?t = "trace (exec 4 (Loads ''<p>'') [''http://example.com/''])"
  have o: "outcome (Loads ''<p>'') = Some (True, ''<p>'')" by simp
  have t: "?t = full_trace (JsString ''http://example.com/'') True ''<p>''"
    by (simp add: trace_exec [OF o] cli_get_def length_full_trace)
  have len: "4 < length ?t" "5 < length ?t"
    by (simp_all add: t length_full_trace)
  have e: "?t ! 4 = EvEcho ''<p>''" and s: "shutdown_step (?t ! 5)"
    by (simp_all add: t full_trace_def)
  from output_ordering [OF refl len(1), of "''<p>''"] e
  have a: "(\<exists>i<4. is_load_finished (?t ! i))" and b: "\<forall>i\<le>4. \<not> shutdown_step (?t ! i)"
    by blast+
  from b have b3: "\<not> shutdown_step (?t ! 3)" by simp
  from output_ordering [OF refl len(2), of "''<p>''"] s
  have c: "\<exists>i<5. is_echo (?t ! i)" by blast
  from e a b3 s c show ?thesis by blast
qed

subsection \<open>C5: a failed navigation is treated as a successful one\<close>

text \<open>
  C5. No error conditions are distinguished: on navigation failure (bad URL, network
  error, unreachable host, HTTP error status) the program performs no check and no
  report, reads whatever HTML state exists at completion, and executes the same shutdown
  sequence as on success; there is no retry and no distinct error exit path.

  Neither callback reads the load status: changing it before the call changes nothing
  but the same field after it. So the execution of a navigation that fails with the
  document \<open>h\<close> is, turn by turn, the execution of one that loads \<open>h\<close>, but for the
  status the engine holds and signals: every other field of the state is the same, and
  the calls the script makes are the same calls in the same order. The document is
  written with its newline, nothing is reported, \<^verbatim>\<open>casper.start\<close> is called once, and
  the exit status is 0.
\<close>

theorem failure_not_distinguished:
  "start_fn (s\<lparr>load_status := x\<rparr>) = (fst (start_fn s), (snd (start_fn s))\<lparr>load_status := x\<rparr>)
   \<and> run_fn (s\<lparr>load_status := x\<rparr>) = (fst (run_fn s), (snd (run_fn s))\<lparr>load_status := x\<rparr>)
   \<and> exec n (Fails h) args =
       (exec n (Loads h) args)
         \<lparr>load_status := load_status (exec n (Fails h) args),
          trace := trace (exec n (Fails h) args)\<rparr>
   \<and> [e \<leftarrow> trace (exec n (Fails h) args). \<not> is_load_finished e] =
       [e \<leftarrow> trace (exec n (Loads h) args). \<not> is_load_finished e]
   \<and> stdout (exec (2 + n) (Fails h) args) = h @ [CHR 0x0A]
   \<and> err (exec n (Fails h) args) = []
   \<and> [e \<leftarrow> trace (exec n (Fails h) args). is_start e] = [EvStart (cli_get args 0) StartFn]
   \<and> exit_code (exec (4 + n) (Fails h) args) = Some 0"
proof -
  have f: "outcome (Fails h) = Some (False, h)" by simp
  show ?thesis
    using exec_fails_loads [of n h args] calls_fails_loads [of n h args]
    by (simp add: start_fn_eq run_fn_eq stdout_exec [OF f] err_exec starts_exec
        exit_code_exec [OF f])
qed

theorem failure_not_distinguished_witness:
  "stdout (exec 4 (Fails ''<h1>404</h1>'') [''http://example.com/missing'']) =
     stdout (exec 4 (Loads ''<h1>404</h1>'') [''http://example.com/missing''])
   \<and> stdout (exec 4 (Fails []) [''http://unreachable.invalid/'']) = [CHR 0x0A]
   \<and> exit_code (exec 4 (Fails []) [''http://unreachable.invalid/'']) = Some 0
   \<and> err (exec 4 (Fails []) [''http://unreachable.invalid/'']) = []"
proof -
  have "stdout (exec 4 (Fails ''<h1>404</h1>'') [''http://example.com/missing'']) =
        stdout ((exec 4 (Loads ''<h1>404</h1>'') [''http://example.com/missing''])
          \<lparr>load_status := load_status (exec 4 (Fails ''<h1>404</h1>'') [''http://example.com/missing'']),
           trace := trace (exec 4 (Fails ''<h1>404</h1>'') [''http://example.com/missing''])\<rparr>)"
    using failure_not_distinguished [where s = casper_create and x = None and n = 4 and h = "''<h1>404</h1>''"
        and args = "[''http://example.com/missing'']"]
    by simp
  moreover have "stdout (exec (2 + 2) (Fails []) [''http://unreachable.invalid/'']) = [] @ [CHR 0x0A]
     \<and> exit_code (exec (4 + 0) (Fails []) [''http://unreachable.invalid/'']) = Some 0"
    using failure_not_distinguished [where s = casper_create and x = None and n = 2 and h = "[]"
        and args = "[''http://unreachable.invalid/'']"]
      failure_not_distinguished [where s = casper_create and x = None and n = 0 and h = "[]"
        and args = "[''http://unreachable.invalid/'']"]
    by blast
  moreover have "err (exec 4 (Fails []) [''http://unreachable.invalid/'']) = []"
    using failure_not_distinguished [where s = casper_create and x = None and n = 4 and h = "[]"
        and args = "[''http://unreachable.invalid/'']"]
    by blast
  ultimately show ?thesis by simp
qed

subsection \<open>C6: errors during teardown are swallowed\<close>

text \<open>
  C6. Once shutdown begins, every engine-reported error is swallowed by a no-op handler
  installed during teardown, and the unconditional fatal raise that follows serves only
  to force termination and is never reported as a failure to any caller.

  A callback runs to its end before the engine can hand an error to the hook, so the
  first error the engine can report once the shutdown sequence has begun is the one the
  sequence itself throws. After the completion callback, on any state: the hook holds
  the empty function; an error reported to the engine, and any number of them, leaves
  the state as it is; the error thrown by the callback itself is delivered to that
  handler and adds nothing to the errors the engine surfaced. In every state of every
  execution the engine has surfaced no error, and the exit status is 0 once there is one.
\<close>

theorem teardown_errors_swallowed:
  "on_error (snd (run_fn s)) = Some NoopFn
   \<and> report e (snd (run_fn s)) = snd (run_fn s)
   \<and> foldr report es (snd (run_fn s)) = snd (run_fn s)
   \<and> deliver (run_fn s) = snd (run_fn s)
   \<and> err (deliver (run_fn s)) = err s
   \<and> err (exec n net args) = []
   \<and> (exit_code (exec n net args) = None \<or> exit_code (exec n net args) = Some 0)"
proof -
  have "exit_code (exec n net args) = None \<or> exit_code (exec n net args) = Some 0"
  proof (cases "outcome net")
    case None
    then show ?thesis by (simp add: exec_stalls script_eq)
  next
    case (Some p)
    then obtain ok h where o: "outcome net = Some (ok, h)" by (cases p) simp
    show ?thesis by (simp add: exit_code_exec [OF o])
  qed
  moreover have "err (deliver (run_fn s)) = err s"
    by (simp add: deliver_run_fn) (simp add: run_fn_eq)
  moreover have "on_error (snd (run_fn s)) = Some NoopFn"
    by (simp add: run_fn_eq)
  ultimately show ?thesis
    by (simp add: report_after_run_fn reports_after_run_fn deliver_run_fn err_exec)
qed

theorem teardown_errors_swallowed_witness:
  "err (report (Error ''late'') (exec 3 (Loads ''<p>'') [''http://example.com/''])) = []
   \<and> err (report (Error ''early'') (exec 2 (Loads ''<p>'') [''http://example.com/''])) =
       [Error ''early'']
   \<and> err (exec 3 (Loads ''<p>'') [''http://example.com/'']) = []
   \<and> exit_code (exec 4 (Loads ''<p>'') [''http://example.com/'']) = Some 0"
proof -
  have o: "outcome (Loads ''<p>'') = Some (True, ''<p>'')" by simp
  let ?s2 = "(exec 2 (Loads ''<p>'') [''http://example.com/''])\<lparr>running := False\<rparr>"
  have e3: "exec 3 (Loads ''<p>'') [''http://example.com/''] = snd (run_fn ?s2)"
    by (simp add: exec_numerals exec_2 [OF o] exec_3 [OF o] run_fn_eq)
  have "report (Error ''late'') (snd (run_fn ?s2)) = snd (run_fn ?s2)"
    and "err (exec 3 (Loads ''<p>'') [''http://example.com/'']) = []"
    using teardown_errors_swallowed [where s = ?s2 and e = "Error ''late''" and es = "[]"
        and n = 3 and net = "Loads ''<p>''" and args = "[''http://example.com/'']"]
    by blast+
  then have a: "err (report (Error ''late'') (exec 3 (Loads ''<p>'') [''http://example.com/''])) = []"
    and c: "err (exec 3 (Loads ''<p>'') [''http://example.com/'']) = []"
    by (simp_all add: e3)
  have b: "err (report (Error ''early'') (exec 2 (Loads ''<p>'') [''http://example.com/''])) =
       [Error ''early'']"
    by (simp add: exec_numerals exec_2 [OF o] report_def)
  have d: "exit_code (exec 4 (Loads ''<p>'') [''http://example.com/'']) = Some 0"
    by (simp add: exit_code_exec [OF o])
  from a b c d show ?thesis by blast
qed

subsection \<open>C7: the two states of the specification\<close>




subsection \<open>C8: the process exits once the output is written\<close>

text \<open>
  C8. Whenever the output has been written (the completion callback fired and the HTML
  was echoed), the process subsequently terminates and does not wait for additional
  input.

  If the trace of an execution after \<open>n\<close> turns holds the \<^verbatim>\<open>echo\<close>, then two turns
  later, and at every turn after that, the process has exited with status 0, no timer
  is pending and the queue has nothing left to do; and the wait for the exit, started
  from the state after \<open>n\<close> turns, returns with status 0. The program has no call that
  reads input: no event of the trace is one.
\<close>

theorem terminates_after_output:
  assumes "EvEcho m \<in> set (trace (exec n net args))"
  shows "exit_code (exec (n + 2 + k) net args) = Some 0
         \<and> tick net (exec (n + 2 + k) net args) = None
         \<and> timers (exec (n + 2 + k) net args) = []
         \<and> await_exit net (exec n net args) = Some 0"
proof -
  from assms obtain ok where o: "outcome net = Some (ok, m)" and n: "2 \<le> n"
    by (rule echo_written)
  from n have e: "exit_code (exec (n + 2 + k) net args) = Some 0"
    by (simp add: exit_code_exec [OF o])
  from n have "n + 2 + k = 4 + (n - 2 + k)"
    by simp
  then have "exec (n + 2 + k) net args = exec (4 + (n - 2 + k)) net args"
    by (rule arg_cong)
  then have "exec (n + 2 + k) net args = exec 4 net args"
    by (simp only: exec_ge4 [OF o])
  then have "timers (exec (n + 2 + k) net args) = []"
    by (simp add: exec_numerals exec_4 [OF o])
  with e show ?thesis
    by (simp add: tick_exited await_exit_exec [OF o])
qed

theorem terminates_after_output_witness:
  "EvEcho ''<p>'' \<in> set (trace (exec 2 (Loads ''<p>'') [''http://example.com/'']))
   \<and> exit_code (exec 4 (Loads ''<p>'') [''http://example.com/'']) = Some 0
   \<and> await_exit (Loads ''<p>'') (exec 2 (Loads ''<p>'') [''http://example.com/'']) = Some 0"
proof -
  have o: "outcome (Loads ''<p>'') = Some (True, ''<p>'')" by simp
  have w: "EvEcho ''<p>'' \<in> set (trace (exec 2 (Loads ''<p>'') [''http://example.com/'']))"
    by (simp add: trace_exec [OF o] full_trace_def)
  from terminates_after_output [OF w, of 0] w show ?thesis by simp
qed

subsection \<open>C9: no timeout, and a navigation that never completes\<close>

text \<open>
  C9. No cancellation or timeout mechanism exists anywhere in the program: in any
  execution in which the engine never invokes the navigation-completion callback, no
  shutdown step is ever reached and the process never terminates (it hangs
  indefinitely, with no watchdog).

  The top level of the script leaves no timer pending. Take any execution in which
  the completion callback is never called, that is, in which its first action, the
  read of the HTML, is in the trace after no number of turns. Then the state after any
  number of turns is the state the top level left: the process has not exited, the
  queue has nothing enabled, no step of the shutdown sequence is in the trace, and the
  wait for the exit has no result.
\<close>

theorem no_watchdog:
  assumes "\<forall>n. EvGetHTML \<notin> set (trace (exec n net args))"
  shows "timers (script args) = []
         \<and> exec n net args = script args
         \<and> exit_code (exec n net args) = None
         \<and> tick net (exec n net args) = None
         \<and> (\<forall>e \<in> set (trace (exec n net args)). \<not> shutdown_step e)
         \<and> await_exit net (script args) = None"
proof -
  have stalls: "outcome net = None"
  proof (rule ccontr)
    assume "outcome net \<noteq> None"
    then obtain ok h where o: "outcome net = Some (ok, h)"
      by (rule outcome_SomeE)
    have "EvGetHTML \<in> set (trace (exec 2 net args))"
      by (simp add: trace_exec [OF o] full_trace_def)
    with assms show False by blast
  qed
  have "advance net (script args) = script args"
    by (simp add: advance_def tick_script_stalls [OF stalls])
  moreover have "exit_code (script args) = None"
    by (simp add: script_eq)
  ultimately have "await_exit net (script args) = None"
    by (intro await_exit_waiting)
  then show ?thesis
    by (simp add: exec_stalls [OF stalls] tick_script_stalls [OF stalls]) (simp add: script_eq)
qed

theorem no_watchdog_witness:
  "exec 1000 Stalls [''http://example.com/''] = script [''http://example.com/'']
   \<and> exit_code (exec 1000 Stalls [''http://example.com/'']) = None
   \<and> trace (exec 1000 Stalls [''http://example.com/'']) =
       [EvStart (JsString ''http://example.com/'') StartFn, EvRun RunFn]
   \<and> await_exit Stalls (script [''http://example.com/'']) = None"
proof -
  have o: "outcome Stalls = None" by simp
  have never: "\<forall>n. EvGetHTML \<notin> set (trace (exec n Stalls [''http://example.com/'']))"
    by (simp add: exec_stalls [OF o] script_eq)
  from no_watchdog [OF never, of 1000] show ?thesis
    by (simp add: script_eq cli_get_def)
qed

subsection \<open>C10: no argument on the command line\<close>

text \<open>
  C10. When the program is invoked with no positional argument, no argument-count check
  is performed and no usage error is produced: the undefined value returned for the
  missing argument is passed directly to the engine's navigation primitive, so the
  program proceeds through the same start/run flow as with a URL present.

  As stated the claim fails in its last part: that the run proceeds as with a URL
  present does not follow from the script, it is the engine's to decide. On the engine
  that refuses a missing URL, the top level with the argument \<^verbatim>\<open>http://example.com/\<close>
  ends normally in the state \<open>script\<close> gives, with the first callback queued and the
  queue running. With no argument the same top level ends in the error that \<^verbatim>\<open>run\<close>
  throws: \<^verbatim>\<open>start\<close> and \<^verbatim>\<open>run\<close> were both called, with \<^verbatim>\<open>undefined\<close>, but no step
  is queued, the queue is not running, and no turn of it is enabled, so neither callback
  is ever called.
\<close>

theorem missing_argument_counterexample:
  "script_on strict_start strict_run casper_create [''http://example.com/''] =
     (Normal, script [''http://example.com/''])
   \<and> fst (script_on strict_start strict_run casper_create []) =
       Throw (Error ''No steps defined, aborting'')
   \<and> trace (snd (script_on strict_start strict_run casper_create [])) =
       [EvStart Undefined StartFn, EvRun RunFn]
   \<and> steps (snd (script_on strict_start strict_run casper_create [])) = []
   \<and> running (snd (script_on strict_start strict_run casper_create [])) = False
   \<and> tick (Loads ''<p>'') (snd (script_on strict_start strict_run casper_create [])) = None"
  by (simp add: script_on_def strict_start_def strict_run_def cli_get_def Let_def
      script_def casper_start_def casper_run_def casper_create_def tick_def)

text \<open>
  C10, amended. When the program is invoked with no positional argument, the script
  performs no argument-count check and produces no usage error of its own: the
  undefined value returned for the missing argument is passed directly to the engine's
  navigation primitive, and the script makes the same calls as with a URL present
  (\<^verbatim>\<open>start\<close> with the first callback and then, unless \<^verbatim>\<open>start\<close> throws, \<^verbatim>\<open>run\<close>
  with the second). Whether the run then proceeds as with a URL present is decided by
  the engine, not by the script.

  This holds of the top level over every engine, whatever its \<^verbatim>\<open>start\<close> and \<^verbatim>\<open>run\<close>
  do: with no argument the value read is \<^verbatim>\<open>undefined\<close> and the top level is the call
  of \<^verbatim>\<open>start\<close> on it followed by the call of \<^verbatim>\<open>run\<close>; with a first argument \<open>a\<close> it
  is the same two calls on the string \<open>a\<close>. Nothing but those calls can end it in an
  error.
\<close>

theorem missing_argument:
  "cli_get [] 0 = Undefined
   \<and> script_on start' run' create [] =
       (case start' Undefined StartFn create of
          (Normal, s1) \<Rightarrow> run' RunFn s1
        | (Throw e, s1) \<Rightarrow> (Throw e, s1))
   \<and> script_on start' run' create (a # rest) =
       (case start' (JsString a) StartFn create of
          (Normal, s1) \<Rightarrow> run' RunFn s1
        | (Throw e, s1) \<Rightarrow> (Throw e, s1))"
  by (simp add: script_on_def cli_get_def Let_def)

theorem missing_argument_witness:
  "script_on strict_start strict_run casper_create [] =
     strict_run RunFn (casper_create\<lparr>page_open := True, trace := [EvStart Undefined StartFn]\<rparr>)
   \<and> script [] = casper_run RunFn (casper_start Undefined StartFn casper_create)"
proof -
  have "script_on strict_start strict_run casper_create [] =
       (case strict_start Undefined StartFn casper_create of
          (Normal, s1) \<Rightarrow> strict_run RunFn s1
        | (Throw e, s1) \<Rightarrow> (Throw e, s1))"
    using missing_argument [where start' = strict_start and run' = strict_run
        and create = casper_create]
    by blast
  then have strict: "script_on strict_start strict_run casper_create [] =
     strict_run RunFn (casper_create\<lparr>page_open := True, trace := [EvStart Undefined StartFn]\<rparr>)"
    by (simp add: strict_start_def casper_create_def)
  have "script_on (\<lambda>url fn s. (Normal, casper_start url fn s))
       (\<lambda>fn s. (Normal, casper_run fn s)) casper_create [] =
       (case (Normal, casper_start Undefined StartFn casper_create) of
          (Normal, s1) \<Rightarrow> (Normal, casper_run RunFn s1)
        | (Throw e, s1) \<Rightarrow> (Throw e, s1))"
    using missing_argument [where start' = "\<lambda>url fn s. (Normal, casper_start url fn s)"
        and run' = "\<lambda>fn s. (Normal, casper_run fn s)" and create = casper_create]
    by blast
  then have "script [] = casper_run RunFn (casper_start Undefined StartFn casper_create)"
    by (simp add: script_on_model)
  with strict show ?thesis by blast
qed

end
